theory Spec2Isabelle
  imports Complex_Main "HOL-Library.Sublist"
begin

section \<open>JSON documents and the Python built-ins the gate scripts use\<close>

text \<open>
  Every input of the gate scripts is a JSON document read with \<^verbatim>\<open>json.loads\<close>.
  An object is the list of its entries, one entry per key, in document order.
  Numbers are the integers; the only floats the modelled functions read are the
  runner-guard thresholds and rates, which are typed separately below.

  A string is the list of its characters, each given by its code point. The type
  \<open>char\<close> holds the code points 0 to 255, so the strings here are the Python strings
  over these code points; the built-ins below are Python's on them.
\<close>

datatype json =
    JNull
  | JBool bool
  | JInt int
  | JStr string
  | JList "json list"
  | JObj "(string \<times> json) list"

type_synonym jdict = "(string \<times> json) list"

text \<open>The exceptions the modelled functions raise or handle.\<close>

datatype py_error = RuntimeError | TypeError | ValueError | JSONDecodeError

text \<open>\<^verbatim>\<open>d.get(k)\<close> and \<^verbatim>\<open>d.get(k, default)\<close>: an absent key reads as \<^verbatim>\<open>None\<close>.\<close>

definition py_get_default :: "jdict \<Rightarrow> string \<Rightarrow> json \<Rightarrow> json" where
  "py_get_default d k dflt = (case map_of d k of None \<Rightarrow> dflt | Some v \<Rightarrow> v)"

definition py_get :: "jdict \<Rightarrow> string \<Rightarrow> json" where
  "py_get d k = py_get_default d k JNull"

text \<open>Truth value of a JSON value, as \<^verbatim>\<open>if x\<close> and \<^verbatim>\<open>x or y\<close> test it.\<close>

fun py_truthy :: "json \<Rightarrow> bool" where
  "py_truthy JNull = False"
| "py_truthy (JBool b) = b"
| "py_truthy (JInt i) = (i \<noteq> 0)"
| "py_truthy (JStr s) = (s \<noteq> [])"
| "py_truthy (JList xs) = (xs \<noteq> [])"
| "py_truthy (JObj kvs) = (kvs \<noteq> [])"

definition py_or :: "json \<Rightarrow> json \<Rightarrow> json" where
  "py_or a b = (if py_truthy a then a else b)"

text \<open>
  \<^verbatim>\<open>isinstance(x, int)\<close> holds for integers and for booleans (\<^verbatim>\<open>bool\<close> is a
  subclass of \<^verbatim>\<open>int\<close>, with \<^verbatim>\<open>True == 1\<close>).
\<close>

fun py_as_int :: "json \<Rightarrow> int option" where
  "py_as_int (JInt i) = Some i"
| "py_as_int (JBool b) = Some (if b then 1 else 0)"
| "py_as_int _ = None"


text \<open>
  \<^verbatim>\<open>str.lower\<close>. Below code point 256 the capital letters are A to Z and the letters
  from 192 to 222 other than the multiplication sign 215; each has its small letter 32
  places higher.
\<close>

definition lower_char :: "char \<Rightarrow> char" where
  "lower_char c =
     (let n = (of_char c :: nat) in
      if (65 \<le> n \<and> n \<le> 90) \<or> (192 \<le> n \<and> n \<le> 222 \<and> n \<noteq> 215) then char_of (n + 32)
      else c)"

definition py_lower :: "string \<Rightarrow> string" where
  "py_lower s = map lower_char s"

text \<open>
  \<^verbatim>\<open>str.upper\<close>. The small letters a to z and those from 224 to 254 other than the
  division sign 247 have their capital 32 places lower; the sharp s (223) becomes
  \<^verbatim>\<open>SS\<close>. The capitals of the micro sign (181) and of y with diaeresis (255) have
  code points above 255: the result is \<open>None\<close> for a string that holds one of the two.
\<close>

definition upper_char :: "char \<Rightarrow> string option" where
  "upper_char c =
     (let n = (of_char c :: nat) in
      if (97 \<le> n \<and> n \<le> 122) \<or> (224 \<le> n \<and> n \<le> 254 \<and> n \<noteq> 247) then Some [char_of (n - 32)]
      else if n = 223 then Some ''SS''
      else if n = 181 \<or> n = 255 then None
      else Some [c])"

fun py_upper :: "string \<Rightarrow> string option" where
  "py_upper [] = Some []"
| "py_upper (c # cs) =
     (case upper_char c of
        None \<Rightarrow> None
      | Some u \<Rightarrow> (case py_upper cs of None \<Rightarrow> None | Some us \<Rightarrow> Some (u @ us)))"

text \<open>
  \<^verbatim>\<open>str.strip\<close>. The whitespace characters below code point 256 are 9 to 13, 28 to 32,
  the next-line control 133 and the no-break space 160.
\<close>

definition is_space :: "char \<Rightarrow> bool" where
  "is_space c =
     (let n = (of_char c :: nat) in
      (9 \<le> n \<and> n \<le> 13) \<or> (28 \<le> n \<and> n \<le> 32) \<or> n = 133 \<or> n = 160)"

definition py_strip :: "string \<Rightarrow> string" where
  "py_strip s = rev (dropWhile is_space (rev (dropWhile is_space s)))"

text \<open>\<^verbatim>\<open>needle in hay\<close> on strings: a contiguous occurrence.\<close>

definition py_in_str :: "string \<Rightarrow> string \<Rightarrow> bool" where
  "py_in_str needle hay = sublist needle hay"

text \<open>
  \<^verbatim>\<open>repr\<close> of a string. The quote is the double quote when the string holds a single
  quote and no double quote, else the single quote. The quote and the backslash are
  escaped by a backslash; tab, newline and carriage return are written as a backslash
  and the letter t, n or r; every other character that is not printable (the controls
  0 to 31 and 127 to 159, the no-break space 160 and the soft hyphen 173) is written as
  a backslash, the letter x and its two hexadecimal digits.
\<close>

definition hex_digit :: "nat \<Rightarrow> char" where
  "hex_digit n = (if n < 10 then char_of (48 + n) else char_of (87 + n))"

definition repr_char :: "char \<Rightarrow> char \<Rightarrow> string" where
  "repr_char quote c =
     (let n = (of_char c :: nat) in
      if c = quote \<or> n = 92 then [CHR 0x5C, c]
      else if n = 9 then [CHR 0x5C, CHR ''t'']
      else if n = 10 then [CHR 0x5C, CHR ''n'']
      else if n = 13 then [CHR 0x5C, CHR ''r'']
      else if n < 32 \<or> (127 \<le> n \<and> n \<le> 160) \<or> n = 173
        then [CHR 0x5C, CHR ''x'', hex_digit (n div 16), hex_digit (n mod 16)]
      else [c])"

definition py_repr :: "string \<Rightarrow> string" where
  "py_repr s =
     (let quote = (if CHR 0x27 \<in> set s \<and> CHR 0x22 \<notin> set s then CHR 0x22 else CHR 0x27)
      in quote # concat (map (repr_char quote) s) @ [quote])"

text \<open>
  \<^verbatim>\<open>str(x)\<close>, and \<^verbatim>\<open>repr(x)\<close> when the flag is set: inside a list or an object
  Python prints the \<^verbatim>\<open>repr\<close> of each key and item.
\<close>

fun digits :: "nat \<Rightarrow> string" where
  "digits n = (if n < 10 then [char_of (48 + n)] else digits (n div 10) @ [char_of (48 + n mod 10)])"

definition int_text :: "int \<Rightarrow> string" where
  "int_text i = (if i < 0 then CHR ''-'' # digits (nat (- i)) else digits (nat i))"

fun join_text :: "string \<Rightarrow> string list \<Rightarrow> string" where
  "join_text sep [] = []"
| "join_text sep [x] = x"
| "join_text sep (x # y # ys) = x @ sep @ join_text sep (y # ys)"

fun py_text :: "bool \<Rightarrow> json \<Rightarrow> string" where
  "py_text q JNull = ''None''"
| "py_text q (JBool b) = (if b then ''True'' else ''False'')"
| "py_text q (JInt i) = int_text i"
| "py_text q (JStr s) = (if q then py_repr s else s)"
| "py_text q (JList xs) = ''['' @ join_text '', '' (map (py_text True) xs) @ '']''"
| "py_text q (JObj kvs) =
     ''{'' @ join_text '', '' (map (\<lambda>kv. py_repr (fst kv) @ '': '' @ py_text True (snd kv)) kvs) @ ''}''"

definition py_str :: "json \<Rightarrow> string" where
  "py_str v = py_text False v"

text \<open>
  Division of two floats that hold whole numbers, as IEEE 754 binary64 defines it: the
  quotient is rounded to the nearest number with a 53-bit significand, a tie to the one
  whose significand is even. \<^verbatim>\<open>scale_of a b 0\<close> is the least \<open>s\<close> that brings
  \<open>a * 2 ^ s / b\<close> up to \<open>2 ^ 52\<close>; the quotient scaled by it lies below \<open>2 ^ 53\<close> and
  is rounded to a whole number there. The operands are whole numbers up to \<open>2 ^ 53\<close>,
  which a float holds exactly, and the divisor is not zero.
\<close>

definition round_half_even :: "int \<Rightarrow> int \<Rightarrow> int" where
  "round_half_even n d =
     (let k = n div d; r = n mod d in
      if 2 * r < d then k
      else if d < 2 * r then k + 1
      else if even k then k else k + 1)"

function scale_of :: "int \<Rightarrow> int \<Rightarrow> nat \<Rightarrow> nat" where
  "scale_of a b s = (if a \<le> 0 \<or> b * 2 ^ 52 \<le> a * 2 ^ s then s else scale_of a b (Suc s))"
  by pat_completeness auto
termination
proof (relation "measure (\<lambda>(a, b, s). nat (b * 2 ^ 52 - a * 2 ^ s))")
  show "wf (measure (\<lambda>(a, b, s). nat (b * 2 ^ 52 - a * 2 ^ s)))"
    by simp
next
  fix a b :: int and s :: nat
  define y where "y = a * 2 ^ s"
  define x where "x = b * 2 ^ 52"
  assume "\<not> (a \<le> 0 \<or> b * 2 ^ 52 \<le> a * 2 ^ s)"
  then have "0 < y" and "y < x"
    unfolding y_def x_def by simp_all
  then have "nat (x - 2 * y) < nat (x - y)"
    by linarith
  moreover have "a * 2 ^ Suc s = 2 * y"
    unfolding y_def by simp
  ultimately show "((a, b, Suc s), (a, b, s)) \<in> measure (\<lambda>(a, b, s). nat (b * 2 ^ 52 - a * 2 ^ s))"
    unfolding x_def y_def by (simp only: in_measure prod.case)
qed

declare scale_of.simps [simp del]

definition float_div :: "nat \<Rightarrow> nat \<Rightarrow> real" where
  "float_div a b =
     (if a = 0 then 0
      else (let s = scale_of (int a) (int b) 0
            in real_of_int (round_half_even (int a * 2 ^ s) (int b)) / 2 ^ s))"


section \<open>Runner guard (\<^verbatim>\<open>runner_guard.py\<close>)\<close>

definition STATE_CLOSED :: string where "STATE_CLOSED = ''closed''"
definition STATE_OPEN :: string where "STATE_OPEN = ''open''"
definition STATE_HALF_OPEN :: string where "STATE_HALF_OPEN = ''half_open''"

text \<open>
  The result of \<^verbatim>\<open>compute_rates\<close>: four floats, each given by the number it holds.
\<close>

record rates =
  total :: real
  failRate :: real
  timeoutRate :: real
  retryStormRate :: real

text \<open>
  The inner loop of \<^verbatim>\<open>compute_rates\<close>, over the blocking issues of one row. The
  counters are floats that start at \<^verbatim>\<open>0.0\<close> and grow by \<^verbatim>\<open>1.0\<close>: they hold whole
  numbers, exactly so below \<open>2 ^ 53\<close>, which no history in memory reaches.
\<close>

fun count_issues :: "json list \<Rightarrow> nat \<times> nat \<Rightarrow> nat \<times> nat" where
  "count_issues [] acc = acc"
| "count_issues (JStr issue # rest) (timeout_count, retry_storm_count) =
     (let low = py_lower issue;
          timeout_count = (if py_in_str ''timeout'' low then timeout_count + 1 else timeout_count);
          retry_storm_count =
            (if py_in_str ''retry storm'' low then retry_storm_count + 1 else retry_storm_count)
      in count_issues rest (timeout_count, retry_storm_count))"
| "count_issues (_ # rest) acc = count_issues rest acc"

text \<open>The outer loop, over the history rows.\<close>

fun count_rows :: "jdict list \<Rightarrow> nat \<times> nat \<times> nat \<Rightarrow> nat \<times> nat \<times> nat" where
  "count_rows [] acc = acc"
| "count_rows (row # rest) (fail_count, timeout_count, retry_storm_count) =
     (let status = py_get row ''status'';
          fail_count =
            (if status = JStr ''tool_error'' \<or> status = JStr ''policy_fail''
             then fail_count + 1 else fail_count);
          issues = py_get row ''blockingIssues'';
          (timeout_count, retry_storm_count) =
            (case issues of
               JList xs \<Rightarrow> count_issues xs (timeout_count, retry_storm_count)
             | _ \<Rightarrow> (timeout_count, retry_storm_count))
      in count_rows rest (fail_count, timeout_count, retry_storm_count))"

text \<open>\<^verbatim>\<open>compute_rates\<close>. The three quotients are float divisions.\<close>

definition compute_rates :: "jdict list \<Rightarrow> rates" where
  "compute_rates history =
     (let total = length history in
      if total = 0 then \<lparr>total = 0, failRate = 0, timeoutRate = 0, retryStormRate = 0\<rparr>
      else
        (case count_rows history (0, 0, 0) of
           (fail_count, timeout_count, retry_storm_count) \<Rightarrow>
             \<lparr>total = real total,
              failRate = float_div fail_count total,
              timeoutRate = float_div timeout_count total,
              retryStormRate = float_div retry_storm_count total\<rparr>))"

text \<open>
  The guard policy as \<^verbatim>\<open>transition_state\<close> reads it. \<open>mode\<close> is the entry
  \<^verbatim>\<open>policy["mode"]\<close>, \<open>None\<close> when the key is absent. Each threshold is the value
  \<^verbatim>\<open>float(thresholds[key])\<close>, \<open>None\<close> when \<^verbatim>\<open>policy["thresholds"]\<close> is not an object
  or does not hold the key; the code's defaults then apply.
\<close>

record guard_policy =
  mode :: "json option"
  failRateMax :: "real option"
  timeoutRateMax :: "real option"
  retryStormAttemptsPerGateMax :: "real option"

text \<open>The messages of the guard, with the numbers they print.\<close>

datatype guard_issue =
    LearningFailRate real real
  | LearningTimeoutRate real real
  | LearningRetryStormRate real real
  | GuardThresholdBreach real real

text \<open>\<^verbatim>\<open>str(policy.get("mode", default)).lower()\<close>.\<close>

definition policy_mode :: "guard_policy \<Rightarrow> string \<Rightarrow> string" where
  "policy_mode policy dflt =
     py_lower (py_str (case mode policy of None \<Rightarrow> JStr dflt | Some v \<Rightarrow> v))"

definition transition_state :: "string \<Rightarrow> guard_policy \<Rightarrow> rates \<Rightarrow> string \<times> guard_issue list" where
  "transition_state previous_state policy rs =
     (let mode = policy_mode policy ''learning'';
          fail_rate_max = (case failRateMax policy of None \<Rightarrow> 1 | Some x \<Rightarrow> x);
          timeout_rate_max = (case timeoutRateMax policy of None \<Rightarrow> 1 | Some x \<Rightarrow> x);
          retry_storm_max = (case retryStormAttemptsPerGateMax policy of None \<Rightarrow> 9999 | Some x \<Rightarrow> x);
          fail_rate = failRate rs;
          timeout_rate = timeoutRate rs;
          retry_storm_rate = retryStormRate rs
      in
      if mode = ''learning'' then
        (if previous_state \<noteq> [] then previous_state else STATE_CLOSED,
         (if fail_rate > fail_rate_max then [LearningFailRate fail_rate fail_rate_max] else []) @
         (if timeout_rate > timeout_rate_max
          then [LearningTimeoutRate timeout_rate timeout_rate_max] else []) @
         (if retry_storm_rate > retry_storm_max
          then [LearningRetryStormRate retry_storm_rate retry_storm_max] else []))
      else
        (let previous_state =
               (if previous_state \<notin> {STATE_CLOSED, STATE_OPEN, STATE_HALF_OPEN}
                then STATE_CLOSED else previous_state);
             breach = (fail_rate > fail_rate_max \<or> timeout_rate > timeout_rate_max)
         in
         if breach then
           (if previous_state = STATE_HALF_OPEN
            then (STATE_OPEN, [GuardThresholdBreach fail_rate timeout_rate])
            else (STATE_OPEN, [GuardThresholdBreach fail_rate timeout_rate]))
         else if previous_state = STATE_OPEN then (STATE_HALF_OPEN, [])
         else if previous_state = STATE_HALF_OPEN then (STATE_CLOSED, [])
         else (STATE_CLOSED, [])))"

record guard_report =
  report_mode :: json
  previousState :: string
  guard_state :: string
  report_rates :: rates
  guard_issues :: "guard_issue list"

definition evaluate_runner_guard :: "guard_policy \<Rightarrow> jdict list \<Rightarrow> string \<Rightarrow> guard_report" where
  "evaluate_runner_guard policy history previous_state =
     (let rs = compute_rates history;
          (next_state, iss) = transition_state previous_state policy rs
      in \<lparr>report_mode = (case mode policy of None \<Rightarrow> JStr ''learning'' | Some v \<Rightarrow> v),
          previousState = previous_state,
          guard_state = next_state,
          report_rates = rs,
          guard_issues = iss\<rparr>)"

text \<open>
  \<^verbatim>\<open>_evaluate_runner_guard\<close> of the supervisor (\<^verbatim>\<open>gate_runner.py\<close>). The state file is
  \<open>None\<close> when it does not exist, else the object it holds. The result is the report,
  the flag \<^verbatim>\<open>hard_open\<close>, and the state written back to the file.
\<close>

definition supervisor_evaluate_runner_guard ::
  "guard_policy \<Rightarrow> jdict list \<Rightarrow> jdict option \<Rightarrow> guard_report \<times> bool \<times> string" where
  "supervisor_evaluate_runner_guard policy history state_file =
     (let previous_state =
            (case state_file of
               None \<Rightarrow> ''closed''
             | Some state_payload \<Rightarrow>
                 (case py_get state_payload ''state'' of JStr state_raw \<Rightarrow> state_raw | _ \<Rightarrow> ''closed''));
          report = evaluate_runner_guard policy history previous_state;
          mode = policy_mode policy ''learning'';
          hard_open = (guard_state report = STATE_OPEN \<and> mode \<noteq> ''learning'')
      in (report, hard_open, guard_state report))"


text \<open>
  The outcome a gate function hands to the supervisor, and the report of the G0 checks
  (\<^verbatim>\<open>run_g0\<close>). The attestation summary is the one \<^verbatim>\<open>_gate_g4\<close> builds.
\<close>

record attestation_summary =
  att_mode :: json
  att_attestedBy :: json
  att_reviewedBy :: json
  att_passed :: bool
  att_issues :: "string list"

record gate_outcome =
  out_status :: string
  out_reasonCodes :: "string list"
  out_blockingIssues :: "string list"
  out_attestation :: "attestation_summary option"

record g0_report =
  g0_passed :: bool
  g0_reasonCodes :: "string list"
  g0_issues :: "string list"

definition STATUS_PASS :: string where "STATUS_PASS = ''pass''"
definition STATUS_POLICY_FAIL :: string where "STATUS_POLICY_FAIL = ''policy_fail''"
definition STATUS_TOOL_ERROR :: string where "STATUS_TOOL_ERROR = ''tool_error''"
definition STATUS_SKIPPED :: string where "STATUS_SKIPPED = ''skipped''"

text \<open>\<^verbatim>\<open>run_g0_fn\<close> of \<^verbatim>\<open>main\<close>: the guard verdict comes first, then the G0 checks.\<close>

definition run_g0_fn :: "bool \<Rightarrow> g0_report \<Rightarrow> gate_outcome" where
  "run_g0_fn guard_open report =
     (if guard_open then
        \<lparr>out_status = STATUS_POLICY_FAIL,
         out_reasonCodes = [''HARD_GATE_RUNNER_SELF_HEALTH_FAIL''],
         out_blockingIssues = [''runner guard state is open; gate pipeline blocked''],
         out_attestation = None\<rparr>
      else
        \<lparr>out_status = (if g0_passed report then STATUS_PASS else STATUS_POLICY_FAIL),
         out_reasonCodes = g0_reasonCodes report,
         out_blockingIssues = g0_issues report,
         out_attestation = None\<rparr>)"

subsection \<open>The quantities the specification names for the guard\<close>

text \<open>Breach: \<^verbatim>\<open>failRate > failRateMax\<close> or \<^verbatim>\<open>timeoutRate > timeoutRateMax\<close>.\<close>

definition guard_breach :: "guard_policy \<Rightarrow> rates \<Rightarrow> bool" where
  "guard_breach policy rs =
     (failRate rs > (case failRateMax policy of None \<Rightarrow> 1 | Some x \<Rightarrow> x) \<or>
      timeoutRate rs > (case timeoutRateMax policy of None \<Rightarrow> 1 | Some x \<Rightarrow> x))"

text \<open>A history row counts as a failure when its status is tool_error or policy_fail.\<close>

definition is_failure :: "jdict \<Rightarrow> bool" where
  "is_failure row =
     (py_get row ''status'' = JStr ''tool_error'' \<or> py_get row ''status'' = JStr ''policy_fail'')"

text \<open>The blocking issues of a row that are strings (none when the field is not a list).\<close>

definition string_issues :: "jdict \<Rightarrow> string list" where
  "string_issues row =
     (case py_get row ''blockingIssues'' of
        JList xs \<Rightarrow> concat (map (\<lambda>v. case v of JStr s \<Rightarrow> [s] | _ \<Rightarrow> []) xs)
      | _ \<Rightarrow> [])"

text \<open>An issue mentions a word when its lower-cased text contains it.\<close>

definition mentions :: "string \<Rightarrow> string \<Rightarrow> bool" where
  "mentions word issue = py_in_str word (py_lower issue)"

text \<open>The number of blocking issues, over the whole history, that mention a word.\<close>

definition issue_count :: "string \<Rightarrow> jdict list \<Rightarrow> nat" where
  "issue_count word history =
     length (filter (mentions word) (concat (map string_issues history)))"

text \<open>
  The specification's count: the number of checkpoints that have any blocking issue
  containing the word.
\<close>

definition checkpoints_with_issue :: "string \<Rightarrow> jdict list \<Rightarrow> nat" where
  "checkpoints_with_issue word history =
     length (filter (\<lambda>row. list_ex (py_in_str word) (string_issues row)) history)"

text \<open>A history of one checkpoint whose two blocking issues both mention a timeout.\<close>

definition two_timeouts :: "jdict list" where
  "two_timeouts =
     [[(''status'', JStr ''tool_error''),
       (''blockingIssues'',
        JList [JStr ''G1 timeout exceeded: 60s'', JStr ''timeout while running sync''])]]"

text \<open>A history of three checkpoints, the first of which failed.\<close>

definition one_in_three :: "jdict list" where
  "one_in_three =
     [[(''status'', JStr ''tool_error''), (''blockingIssues'', JList [])],
      [(''status'', JStr ''pass''), (''blockingIssues'', JList [])],
      [(''status'', JStr ''pass''), (''blockingIssues'', JList [])]]"

text \<open>An enforced policy, a learning policy, and rates with and without a breach.\<close>

definition enforced_policy :: guard_policy where
  "enforced_policy =
     \<lparr>mode = Some (JStr ''enforced''), failRateMax = Some (1 / 10),
      timeoutRateMax = Some (1 / 20), retryStormAttemptsPerGateMax = None\<rparr>"

definition learning_policy :: guard_policy where
  "learning_policy =
     \<lparr>mode = Some (JStr ''Learning''), failRateMax = Some (1 / 10),
      timeoutRateMax = Some (1 / 20), retryStormAttemptsPerGateMax = None\<rparr>"

definition breaching_rates :: rates where
  "breaching_rates = \<lparr>total = 2, failRate = 1, timeoutRate = 1, retryStormRate = 0\<rparr>"

definition healthy_rates :: rates where
  "healthy_rates = \<lparr>total = 1, failRate = 0, timeoutRate = 0, retryStormRate = 0\<rparr>"


section \<open>Gate supervisor and verdict deriver (\<^verbatim>\<open>gate_runner.py\<close>)\<close>

text \<open>
  A checkpoint as \<^verbatim>\<open>_build_checkpoint\<close> makes it, with the fields the supervisor and the
  verdict deriver read. The hashes, the timestamps, the idempotency key and the details
  are left out: no function below branches on them.
\<close>

record checkpoint =
  gate :: string
  attempt :: nat
  status :: string
  reasonCodes :: "string list"
  blockingIssues :: "string list"
  attestation :: "attestation_summary option"

text \<open>\<^verbatim>\<open>_dedup\<close>: keep the first occurrence of each value.\<close>

fun dedup_loop :: "string list \<Rightarrow> string list \<Rightarrow> string list" where
  "dedup_loop [] out = out"
| "dedup_loop (v # vs) out = dedup_loop vs (if v \<notin> set out then out @ [v] else out)"

definition dedup :: "string list \<Rightarrow> string list" where
  "dedup vs = dedup_loop vs []"

definition build_checkpoint ::
  "string \<Rightarrow> nat \<Rightarrow> string \<Rightarrow> string list \<Rightarrow> string list \<Rightarrow> attestation_summary option \<Rightarrow> checkpoint" where
  "build_checkpoint gate_id attempt_no st reason_codes blocking_issues att =
     \<lparr>gate = gate_id, attempt = attempt_no, status = st,
      reasonCodes = dedup reason_codes, blockingIssues = blocking_issues,
      attestation = att\<rparr>"

subsection \<open>Retries\<close>

text \<open>\<^verbatim>\<open>_gate_retry_cfg\<close>: the pair (max_attempts, interval_seconds) of a gate.\<close>

definition gate_retry_cfg :: "jdict \<Rightarrow> string \<Rightarrow> nat \<times> nat" where
  "gate_retry_cfg profile gate_id =
     (case py_get profile ''retries'' of
        JObj retries \<Rightarrow>
          (case py_get retries gate_id of
             JObj gate_cfg \<Rightarrow>
               (let max_attempts = py_get gate_cfg ''max_attempts'';
                    interval_seconds = py_get gate_cfg ''interval_seconds'';
                    max_attempts_int =
                      (case py_as_int max_attempts of
                         Some n \<Rightarrow> if n \<ge> 0 then nat n else 0
                       | None \<Rightarrow> 0);
                    interval_int =
                      (case py_as_int interval_seconds of
                         Some n \<Rightarrow> if n \<ge> 0 then nat n else 0
                       | None \<Rightarrow> 0)
                in (max_attempts_int, interval_int))
           | _ \<Rightarrow> (0, 0))
      | _ \<Rightarrow> (0, 0))"

text \<open>The statuses that are retried: \<^verbatim>\<open>profile["retry_on_status"]\<close>, or its default.\<close>

definition retry_statuses :: "jdict \<Rightarrow> string list" where
  "retry_statuses profile =
     (case py_get profile ''retry_on_status'' of
        JList retry_on \<Rightarrow> map py_str retry_on
      | _ \<Rightarrow> [STATUS_TOOL_ERROR])"

text \<open>
  What one call of the gate function under the timeout ends in: an outcome, a
  \<^verbatim>\<open>TimeoutError\<close>, or any other exception, each with its message.
\<close>

datatype gate_result = Returned gate_outcome | TimedOut string | Raised string

text \<open>The checkpoint of one attempt (the body of the loop up to the two writes).\<close>

definition attempt_checkpoint :: "string \<Rightarrow> nat \<Rightarrow> gate_result \<Rightarrow> checkpoint" where
  "attempt_checkpoint gate_id attempt_no res =
     (case res of
        Returned outcome \<Rightarrow>
          build_checkpoint gate_id attempt_no (out_status outcome) (out_reasonCodes outcome)
            (out_blockingIssues outcome) (out_attestation outcome)
      | TimedOut exc \<Rightarrow>
          build_checkpoint gate_id attempt_no STATUS_TOOL_ERROR [''HARD_HARD_GATE_CHECK_FAILED'']
            [gate_id @ '' timeout exceeded: '' @ exc] None
      | Raised exc \<Rightarrow>
          build_checkpoint gate_id attempt_no STATUS_TOOL_ERROR [''HARD_HARD_GATE_CHECK_FAILED'']
            [''unhandled gate exception: '' @ exc] None)"

text \<open>
  The loop \<^verbatim>\<open>for attempt in range(1, total_attempts + 1)\<close>, from a given attempt on. The
  result is the list of checkpoints written (to the per-attempt files and the history),
  in order. The pause \<^verbatim>\<open>time.sleep(retry_interval_seconds)\<close> between two attempts
  leaves no trace in it.
\<close>

function attempts_from ::
  "string \<Rightarrow> string list \<Rightarrow> nat \<Rightarrow> (nat \<Rightarrow> gate_result) \<Rightarrow> nat \<Rightarrow> checkpoint list" where
  "attempts_from gate_id retry_on total_attempts gate_fn attempt_no =
     (if attempt_no > total_attempts then []
      else
        (let cp = attempt_checkpoint gate_id attempt_no (gate_fn attempt_no) in
         if status cp = STATUS_PASS then [cp]
         else
           (let should_retry = (status cp \<in> set retry_on \<and> attempt_no < total_attempts) in
            if \<not> should_retry then [cp]
            else cp # attempts_from gate_id retry_on total_attempts gate_fn (Suc attempt_no))))"
  by pat_completeness auto
termination
  by (relation "measure (\<lambda>(gate_id, retry_on, total_attempts, gate_fn, attempt_no).
        Suc total_attempts - attempt_no)") auto

declare attempts_from.simps [simp del]

text \<open>
  \<^verbatim>\<open>_run_gate_with_retry\<close>: the checkpoints written, and the last one as the result
  (\<^verbatim>\<open>RuntimeError\<close> if there is none).
\<close>

definition run_gate_with_retry ::
  "string \<Rightarrow> jdict \<Rightarrow> (nat \<Rightarrow> gate_result) \<Rightarrow> checkpoint list \<times> (py_error + checkpoint)" where
  "run_gate_with_retry gate_id profile gate_fn =
     (let retry_on = retry_statuses profile;
          (max_retries, retry_interval_seconds) = gate_retry_cfg profile gate_id;
          total_attempts = 1 + max_retries;
          written = attempts_from gate_id retry_on total_attempts gate_fn 1
      in (written, if written = [] then Inl RuntimeError else Inr (last written)))"

subsection \<open>Verdict\<close>

record verdict =
  result :: string
  decisionWeight :: string
  verdict_reasonCodes :: "string list"
  verdict_blockingIssues :: "string list"
  attestationSummary :: "attestation_summary option"

text \<open>The first loop of \<^verbatim>\<open>_derive_verdict\<close>, over the checkpoints.\<close>

fun collect ::
  "checkpoint list \<Rightarrow> string list \<times> string list \<times> string list \<times> attestation_summary option \<Rightarrow>
   string list \<times> string list \<times> string list \<times> attestation_summary option" where
  "collect [] acc = acc"
| "collect (c # cs) (all_reasons, all_issues, statuses, attestation_summary) =
     collect cs
       (all_reasons @ reasonCodes c,
        all_issues @ blockingIssues c,
        statuses @ [status c],
        (if gate c = ''G4''
         then (case attestation c of Some a \<Rightarrow> Some a | None \<Rightarrow> attestation_summary)
         else attestation_summary))"

text \<open>The escalation of a reason code that is not canonical.\<close>

definition escalate_unknown ::
  "string set \<Rightarrow> string list \<times> string list \<Rightarrow> string list \<times> string list" where
  "escalate_unknown canonical_codes ri =
     (case ri of (reasons, issues) \<Rightarrow>
        if list_ex (\<lambda>code. code \<notin> canonical_codes) reasons
        then (dedup (reasons @ [''HARD_REASON_CODE_UNKNOWN'']),
              issues @ [''unknown reason code detected in checkpoints''])
        else (reasons, issues))"

definition blocked_codes :: "string set" where
  "blocked_codes =
     {''HARD_SOURCE_HEALTH_FAIL'', ''HARD_BUDGET_HARD_CAP_HIT'',
      ''HARD_GATE_RUNNER_SELF_HEALTH_FAIL''}"

text \<open>The choice of the result from the statuses and the reasons.\<close>

definition pick_result :: "string list \<Rightarrow> string list \<Rightarrow> string" where
  "pick_result statuses reasons =
     (if list_ex (\<lambda>s. s = STATUS_TOOL_ERROR) statuses then ''BLOCKED_WITH_RECOVERY_PLAN''
      else if list_ex (\<lambda>s. s = STATUS_POLICY_FAIL) statuses then
        (if list_ex (\<lambda>code. code \<in> blocked_codes) reasons
         then ''BLOCKED_WITH_RECOVERY_PLAN'' else ''NO_GO'')
      else if list_all (\<lambda>s. s = STATUS_PASS \<or> s = STATUS_SKIPPED) statuses then ''PAPER_ONLY_GO''
      else ''NO_GO'')"

text \<open>The override by \<^verbatim>\<open>decision.allowed_outputs\<close>.\<close>

definition apply_allowed_outputs ::
  "jdict \<Rightarrow> string \<times> string list \<times> string list \<Rightarrow> string \<times> string list \<times> string list" where
  "apply_allowed_outputs decision_cfg rri =
     (case rri of (res, reasons, issues) \<Rightarrow>
        (case py_get decision_cfg ''allowed_outputs'' of
           JList allowed_outputs \<Rightarrow>
             (let allowed_set = set (map py_str allowed_outputs) in
              if res \<notin> allowed_set
              then (''NO_GO'', dedup (reasons @ [''HARD_RELEASE_GATE_BLOCKED'']),
                    issues @ [''result not in decision.allowed_outputs''])
              else (res, reasons, issues))
         | _ \<Rightarrow> (res, reasons, issues)))"

text \<open>The override by the source-fallback mode \<^verbatim>\<open>archive_only\<close>.\<close>

definition apply_archive_only ::
  "jdict \<Rightarrow> string \<times> string list \<times> string list \<Rightarrow> string \<times> string list \<times> string list" where
  "apply_archive_only source_fallback_policy rri =
     (case rri of (res, reasons, issues) \<Rightarrow>
        if py_get source_fallback_policy ''mode'' = JStr ''archive_only'' then
          (let allowed =
                 (case py_get source_fallback_policy ''archiveOnly'' of
                    JObj archive \<Rightarrow>
                      (case py_get archive ''allowedOutputs'' of
                         JList raw_allowed \<Rightarrow> set (map py_str raw_allowed)
                       | _ \<Rightarrow> {})
                  | _ \<Rightarrow> {})
           in if allowed \<noteq> {} \<and> res \<notin> allowed
              then (''BLOCKED_WITH_RECOVERY_PLAN'',
                    dedup (reasons @ [''HARD_RELEASE_GATE_BLOCKED'']),
                    issues @ [''archive_only forbids this verdict''])
              else (res, reasons, issues))
        else (res, reasons, issues))"

text \<open>The reasons and issues after aggregation and escalation, and the statuses.\<close>

definition aggregated ::
  "checkpoint list \<Rightarrow> string set \<Rightarrow>
   string list \<times> string list \<times> string list \<times> attestation_summary option" where
  "aggregated checkpoints canonical_codes =
     (case collect checkpoints ([], [], [], None) of
        (all_reasons, all_issues, statuses, attestation_summary) \<Rightarrow>
          (case escalate_unknown canonical_codes (dedup all_reasons, dedup all_issues) of
             (reasons, issues) \<Rightarrow> (reasons, issues, statuses, attestation_summary)))"

text \<open>The result before the two overrides.\<close>

definition result_before_overrides :: "checkpoint list \<Rightarrow> string set \<Rightarrow> string" where
  "result_before_overrides checkpoints canonical_codes =
     (case aggregated checkpoints canonical_codes of
        (reasons, issues, statuses, attestation_summary) \<Rightarrow> pick_result statuses reasons)"

text \<open>\<^verbatim>\<open>_derive_verdict\<close>.\<close>

definition derive_verdict :: "checkpoint list \<Rightarrow> jdict \<Rightarrow> jdict \<Rightarrow> string set \<Rightarrow> verdict" where
  "derive_verdict checkpoints profile source_fallback_policy canonical_codes =
     (let decision_cfg = (case py_get profile ''decision'' of JObj d \<Rightarrow> d | _ \<Rightarrow> []);
          decision_weight =
            py_str (py_get_default decision_cfg ''default_decision_weight'' (JStr ''limited''))
      in
      case aggregated checkpoints canonical_codes of
        (reasons, issues, statuses, attestation_summary) \<Rightarrow>
          (case apply_archive_only source_fallback_policy
                  (apply_allowed_outputs decision_cfg
                     (pick_result statuses reasons, reasons, issues)) of
             (res, reasons, issues) \<Rightarrow>
               \<lparr>result = res,
                decisionWeight = decision_weight,
                verdict_reasonCodes = reasons,
                verdict_blockingIssues = issues,
                attestationSummary = attestation_summary\<rparr>))"

definition exit_code_from_verdict :: "string \<Rightarrow> int" where
  "exit_code_from_verdict res =
     (if res = ''PAPER_ONLY_GO'' then 0
      else if res \<in> {''NO_GO'', ''BLOCKED_WITH_RECOVERY_PLAN''} then 2
      else 3)"


subsection \<open>Names for the statements about the supervisor and the verdict\<close>


text \<open>The checkpoints one gate writes under the retry supervision.\<close>

definition checkpoints_written :: "string \<Rightarrow> jdict \<Rightarrow> (nat \<Rightarrow> gate_result) \<Rightarrow> checkpoint list" where
  "checkpoints_written gate_id profile gate_fn = fst (run_gate_with_retry gate_id profile gate_fn)"

text \<open>Sample checkpoints, a canonical code set and configurations.\<close>

definition cp_pass :: checkpoint where
  "cp_pass = build_checkpoint ''G0'' 1 STATUS_PASS [] [] None"

definition cp_skipped :: checkpoint where
  "cp_skipped =
     build_checkpoint ''G4'' 1 STATUS_SKIPPED [] [''skipped because previous gate failed''] None"

definition cp_tool_error :: checkpoint where
  "cp_tool_error =
     build_checkpoint ''G1'' 1 STATUS_TOOL_ERROR [''HARD_HARD_GATE_CHECK_FAILED'']
       [''G1 timeout exceeded: 60s''] None"

definition cp_threshold :: checkpoint where
  "cp_threshold =
     build_checkpoint ''G3'' 1 STATUS_POLICY_FAIL [''HARD_THRESHOLD_BREACH'']
       [''pbo above pbo_max''] None"

definition cp_health :: checkpoint where
  "cp_health =
     build_checkpoint ''G3'' 1 STATUS_POLICY_FAIL [''HARD_SOURCE_HEALTH_FAIL'']
       [''source health report missing''] None"

definition sample_codes :: "string set" where
  "sample_codes =
     set [''HARD_REASON_CODE_UNKNOWN'', ''HARD_HARD_GATE_CHECK_FAILED'',
          ''HARD_THRESHOLD_BREACH'', ''HARD_SOURCE_HEALTH_FAIL'']"

definition no_go_only_profile :: jdict where
  "no_go_only_profile = [(''decision'', JObj [(''allowed_outputs'', JList [JStr ''NO_GO''])])]"

definition retry_pass_profile :: jdict where
  "retry_pass_profile =
     [(''retry_on_status'', JList [JStr ''pass'']),
      (''retries'', JObj [(''G0'', JObj [(''max_attempts'', JInt 1)])])]"


definition pass_outcome :: gate_outcome where
  "pass_outcome =
     \<lparr>out_status = STATUS_PASS, out_reasonCodes = [], out_blockingIssues = [],
      out_attestation = None\<rparr>"

definition always_pass :: "nat \<Rightarrow> gate_result" where
  "always_pass attempt_no = Returned pass_outcome"




section \<open>Attestation (\<^verbatim>\<open>attestation.py\<close>) and the gate G4\<close>

text \<open>
  \<^verbatim>\<open>active_owner_ids\<close>: the ids of the owners whose \<^verbatim>\<open>active\<close> is \<^verbatim>\<open>True\<close> and whose id
  is a string that is not blank.
\<close>

fun owner_ids :: "json list \<Rightarrow> string list" where
  "owner_ids [] = []"
| "owner_ids (JObj item # rest) =
     (if py_get item ''active'' \<noteq> JBool True then owner_ids rest
      else
        (case py_get item ''id'' of
           JStr owner_id \<Rightarrow>
             (if py_strip owner_id \<noteq> [] then owner_id # owner_ids rest else owner_ids rest)
         | _ \<Rightarrow> owner_ids rest))"
| "owner_ids (_ # rest) = owner_ids rest"

definition active_owner_ids :: "jdict \<Rightarrow> string set" where
  "active_owner_ids owners_payload =
     (case py_get owners_payload ''owners'' of
        JList owners \<Rightarrow> set (owner_ids owners)
      | _ \<Rightarrow> {})"

text \<open>\<^verbatim>\<open>isinstance(x, str) and x in allowed\<close>.\<close>

definition str_in :: "json \<Rightarrow> string set \<Rightarrow> bool" where
  "str_in v allowed = (case v of JStr s \<Rightarrow> s \<in> allowed | _ \<Rightarrow> False)"

definition is_str :: "json \<Rightarrow> bool" where
  "is_str v = (case v of JStr s \<Rightarrow> True | _ \<Rightarrow> False)"

text \<open>\<^verbatim>\<open>isinstance(x, list) and len(x) > 0\<close>.\<close>

definition nonempty_list :: "json \<Rightarrow> bool" where
  "nonempty_list v = (case v of JList xs \<Rightarrow> xs \<noteq> [] | _ \<Rightarrow> False)"

definition attestation_modes :: "json set" where
  "attestation_modes =
     {JStr ''manual_attest'', JStr ''key_signed_attest'', JStr ''service_attest''}"

definition validate_attestation :: "jdict \<Rightarrow> jdict \<Rightarrow> bool \<times> string list" where
  "validate_attestation attestation_payload owners_payload =
     (if py_get attestation_payload ''mode'' \<notin> attestation_modes
      then (False, [''attestation.mode invalid''])
      else
        (let allowed = active_owner_ids owners_payload;
             attested_by = py_get attestation_payload ''attestedBy'';
             reviewed_by = py_get attestation_payload ''reviewedBy'';
             found =
               (if \<not> str_in attested_by allowed
                then [''attestedBy not in active owner allowlist''] else []) @
               (if \<not> str_in reviewed_by allowed
                then [''reviewedBy not in active owner allowlist''] else []) @
               (if is_str attested_by \<and> is_str reviewed_by \<and> attested_by = reviewed_by
                then [''attestedBy must differ from reviewedBy''] else []) @
               (if \<not> is_str (py_get attestation_payload ''attestedAt'')
                then [''attestedAt missing''] else []) @
               (if \<not> is_str (py_get attestation_payload ''reviewedAt'')
                then [''reviewedAt missing''] else []) @
               (if \<not> nonempty_list (py_get attestation_payload ''scope'')
                then [''scope must be non-empty list''] else [])
         in (found = [], found)))"













section \<open>State-machine replay (\<^verbatim>\<open>replay_runtime_state.py\<close>)\<close>

definition STATE_SET :: "string set" where
  "STATE_SET = {''NORMAL'', ''WATCH'', ''DEGRADE_H0'', ''PAUSE_NEW_OPENS'', ''RECOVERY_SHADOW''}"

text \<open>\<^verbatim>\<open>ALLOWED_TRANSITIONS.get(from_state, set())\<close>.\<close>

definition ALLOWED_TRANSITIONS :: "string \<Rightarrow> string set" where
  "ALLOWED_TRANSITIONS from_state =
     (if from_state = ''NORMAL'' then {''NORMAL'', ''WATCH'', ''DEGRADE_H0'', ''PAUSE_NEW_OPENS''}
      else if from_state = ''WATCH'' then {''WATCH'', ''NORMAL'', ''DEGRADE_H0'', ''PAUSE_NEW_OPENS''}
      else if from_state = ''DEGRADE_H0'' then {''DEGRADE_H0'', ''RECOVERY_SHADOW'', ''PAUSE_NEW_OPENS''}
      else if from_state = ''PAUSE_NEW_OPENS''
        then {''PAUSE_NEW_OPENS'', ''WATCH'', ''DEGRADE_H0'', ''RECOVERY_SHADOW''}
      else if from_state = ''RECOVERY_SHADOW''
        then {''RECOVERY_SHADOW'', ''NORMAL'', ''DEGRADE_H0'', ''PAUSE_NEW_OPENS''}
      else {})"

text \<open>
  A timestamp as \<^verbatim>\<open>datetime.fromisoformat\<close> returns it: a point in time, and whether it
  carries a UTC offset. Python orders two timestamps only when both or neither carry
  one, and raises \<^verbatim>\<open>TypeError\<close> otherwise.
\<close>

record datetime =
  aware :: bool
  instant :: int

definition dt_less :: "datetime \<Rightarrow> datetime \<Rightarrow> py_error + bool" where
  "dt_less a b = (if aware a \<noteq> aware b then Inl TypeError else Inr (instant a < instant b))"

text \<open>\<^verbatim>\<open>value.replace("Z", "+00:00")\<close>.\<close>

definition replace_Z :: "string \<Rightarrow> string" where
  "replace_Z s = concat (map (\<lambda>c. if c = CHR ''Z'' then ''+00:00'' else [c]) s)"

text \<open>
  \<^verbatim>\<open>parse_iso\<close>. The library function \<^verbatim>\<open>datetime.fromisoformat\<close> is a parameter: it
  gives \<open>None\<close> where Python raises \<^verbatim>\<open>ValueError\<close>.
\<close>

definition parse_iso :: "(string \<Rightarrow> datetime option) \<Rightarrow> json \<Rightarrow> datetime option" where
  "parse_iso fromisoformat v =
     (case v of
        JStr s \<Rightarrow> if py_strip s = [] then None else fromisoformat (replace_Z s)
      | _ \<Rightarrow> None)"

text \<open>
  The timestamp of a line:
  \<^verbatim>\<open>parse_iso(record.get("timestamp") or record.get("at") or record.get("createdAt") or record.get("time"))\<close>.
\<close>

definition line_timestamp :: "(string \<Rightarrow> datetime option) \<Rightarrow> jdict \<Rightarrow> datetime option" where
  "line_timestamp fromisoformat entry =
     parse_iso fromisoformat
       (py_or (py_or (py_or (py_get entry ''timestamp'') (py_get entry ''at''))
          (py_get entry ''createdAt'')) (py_get entry ''time''))"

text \<open>
  A state token: the text \<^verbatim>\<open>value.strip().upper()\<close>, or \<open>None\<close> when that text has a
  code point above 255 (it is then no state name, all of which are ASCII).
\<close>

type_synonym token = "string option"

text \<open>\<^verbatim>\<open>coalesce_state\<close>: the token of the first key that holds a string which is not blank.\<close>

fun coalesce_state :: "jdict \<Rightarrow> string list \<Rightarrow> token option" where
  "coalesce_state entry [] = None"
| "coalesce_state entry (key # keys) =
     (case py_get entry key of
        JStr v \<Rightarrow>
          (if py_strip v \<noteq> [] then Some (py_upper (py_strip v)) else coalesce_state entry keys)
      | _ \<Rightarrow> coalesce_state entry keys)"

text \<open>\<^verbatim>\<open>token in STATE_SET\<close>.\<close>

definition in_state_set :: "token \<Rightarrow> bool" where
  "in_state_set tok = (case tok of None \<Rightarrow> False | Some s \<Rightarrow> s \<in> STATE_SET)"

definition from_keys :: "string list" where
  "from_keys = [''from'', ''fromState'', ''prevState'', ''previousState'']"

definition to_keys :: "string list" where
  "to_keys = [''to'', ''toState'', ''nextState'', ''state'']"

text \<open>
  A line of the log file: blank, not JSON, or a JSON value. \<^verbatim>\<open>parse_log\<close> skips the
  blank lines, and keeps each object with its line number (counted from 1).
\<close>

datatype log_line = Blank | Malformed | Parsed json

fun parse_log_from :: "nat \<Rightarrow> log_line list \<Rightarrow> py_error + (nat \<times> jdict) list" where
  "parse_log_from idx [] = Inr []"
| "parse_log_from idx (Blank # rest) = parse_log_from (Suc idx) rest"
| "parse_log_from idx (Malformed # rest) = Inl JSONDecodeError"
| "parse_log_from idx (Parsed (JObj payload) # rest) =
     (case parse_log_from (Suc idx) rest of
        Inl e \<Rightarrow> Inl e
      | Inr records \<Rightarrow> Inr ((idx, payload) # records))"
| "parse_log_from idx (Parsed _ # rest) = Inl ValueError"

definition parse_log :: "log_line list \<Rightarrow> py_error + (nat \<times> jdict) list" where
  "parse_log log_lines = parse_log_from 1 log_lines"

datatype replay_error =
    LogFileNotFound
  | NoEvents
  | CannotDetermineToState nat
  | UnknownState nat token
  | UnknownFromState nat token
  | InvalidTransition nat string string
  | InvalidReplayInput py_error
  | ToolError py_error

record transition =
  tr_line :: nat
  tr_from :: "string option"
  tr_to :: string
  tr_allowed :: bool
  tr_event :: json

text \<open>
  The local variables of the replay loop: errors, warnings (the line numbers whose
  timestamp is out of order), transitions, current_state and last_ts.
\<close>

type_synonym replay_vars =
  "replay_error list \<times> nat list \<times> transition list \<times> string option \<times> datetime option"

text \<open>One iteration of the loop, for the record of one line.\<close>

definition replay_step ::
  "(string \<Rightarrow> datetime option) \<Rightarrow> nat \<times> jdict \<Rightarrow> replay_vars \<Rightarrow> py_error + replay_vars" where
  "replay_step fromisoformat numbered vars =
     (case numbered of (line_no, entry) \<Rightarrow>
      case vars of (errs, warns, trs, current_state, last_ts) \<Rightarrow>
        (case coalesce_state entry to_keys of
           None \<Rightarrow> Inr (errs @ [CannotDetermineToState line_no], warns, trs, current_state, last_ts)
         | Some to_token \<Rightarrow>
             if \<not> in_state_set to_token
             then Inr (errs @ [UnknownState line_no to_token], warns, trs, current_state, last_ts)
             else
               (let to_state = the to_token;
                    from_token =
                      (case coalesce_state entry from_keys of
                         None \<Rightarrow> map_option Some current_state
                       | Some f \<Rightarrow> Some f)
                in
                if from_token \<noteq> None \<and> \<not> in_state_set (the from_token)
                then Inr (errs @ [UnknownFromState line_no (the from_token)], warns, trs,
                          current_state, last_ts)
                else
                  (let ts = line_timestamp fromisoformat entry
                   in
                   case (case (ts, last_ts) of
                           (Some t, Some l) \<Rightarrow> dt_less t l
                         | _ \<Rightarrow> Inr False) of
                     Inl e \<Rightarrow> Inl e
                   | Inr out_of_order \<Rightarrow>
                       (let warns = (if out_of_order then warns @ [line_no] else warns);
                            last_ts = (case ts of Some t \<Rightarrow> Some t | None \<Rightarrow> last_ts)
                        in
                        case from_token of
                          None \<Rightarrow>
                            Inr (errs, warns,
                                 trs @ [\<lparr>tr_line = line_no, tr_from = None, tr_to = to_state,
                                         tr_allowed = True, tr_event = py_get entry ''event''\<rparr>],
                                 Some to_state, last_ts)
                        | Some f \<Rightarrow>
                            (let from_state = the f;
                                 allowed = (to_state \<in> ALLOWED_TRANSITIONS from_state) in
                             Inr ((if \<not> allowed
                                   then errs @ [InvalidTransition line_no from_state to_state]
                                   else errs),
                                  warns,
                                  trs @ [\<lparr>tr_line = line_no, tr_from = Some from_state,
                                          tr_to = to_state, tr_allowed = allowed,
                                          tr_event = py_get entry ''event''\<rparr>],
                                  Some to_state, last_ts)))))))"

text \<open>The loop over the records; an exception ends it.\<close>

fun replay_loop ::
  "(string \<Rightarrow> datetime option) \<Rightarrow> (nat \<times> jdict) list \<Rightarrow> replay_vars \<Rightarrow> py_error + replay_vars" where
  "replay_loop fromisoformat [] vars = Inr vars"
| "replay_loop fromisoformat (numbered # rest) vars =
     (case replay_step fromisoformat numbered vars of
        Inl e \<Rightarrow> Inl e
      | Inr vars' \<Rightarrow> replay_loop fromisoformat rest vars')"

text \<open>
  The report. The early reports of \<^verbatim>\<open>main\<close> have no \<^verbatim>\<open>transitionCount\<close> and no
  \<^verbatim>\<open>warnings\<close>: \<open>None\<close> there.
\<close>

record replay_report =
  valid :: bool
  transitionCount :: "nat option"
  finalState :: "string option"
  errors :: "replay_error list"
  warnings :: "nat list option"
  transitions :: "transition list"

definition failed_report :: "replay_error \<Rightarrow> replay_report" where
  "failed_report e =
     \<lparr>valid = False, transitionCount = None, finalState = None, errors = [e],
      warnings = None, transitions = []\<rparr>"

definition EXIT_OK :: int where "EXIT_OK = 0"
definition EXIT_INVALID_REPLAY :: int where "EXIT_INVALID_REPLAY = 2"
definition EXIT_TOOL_ERROR :: int where "EXIT_TOOL_ERROR = 3"

text \<open>
  The two handlers of \<^verbatim>\<open>main\<close>: \<^verbatim>\<open>json.JSONDecodeError\<close> and \<^verbatim>\<open>ValueError\<close> make an
  invalid replay, any other exception a tool error.
\<close>

definition handle_exception :: "py_error \<Rightarrow> replay_report \<times> int" where
  "handle_exception e =
     (if e = JSONDecodeError \<or> e = ValueError
      then (failed_report (InvalidReplayInput e), EXIT_INVALID_REPLAY)
      else (failed_report (ToolError e), EXIT_TOOL_ERROR))"

text \<open>
  \<^verbatim>\<open>main\<close>: the report written and the exit code. The log file is \<open>None\<close> when it does
  not exist, else its lines.
\<close>

definition replay_main ::
  "(string \<Rightarrow> datetime option) \<Rightarrow> bool \<Rightarrow> log_line list option \<Rightarrow> replay_report \<times> int" where
  "replay_main fromisoformat simulate_tool_error log_file =
     (if simulate_tool_error then handle_exception RuntimeError
      else
        (case log_file of
           None \<Rightarrow> (failed_report LogFileNotFound, EXIT_INVALID_REPLAY)
         | Some log_lines \<Rightarrow>
             (case parse_log log_lines of
                Inl e \<Rightarrow> handle_exception e
              | Inr records \<Rightarrow>
                  if length records = 0 then (failed_report NoEvents, EXIT_INVALID_REPLAY)
                  else
                    (case replay_loop fromisoformat records ([], [], [], None, None) of
                       Inl e \<Rightarrow> handle_exception e
                     | Inr (errs, warns, trs, current_state, last_ts) \<Rightarrow>
                         (\<lparr>valid = (length errs = 0),
                           transitionCount = Some (length trs),
                           finalState = current_state,
                           errors = errs,
                           warnings = Some warns,
                           transitions = trs\<rparr>,
                          if length errs = 0 then EXIT_OK else EXIT_INVALID_REPLAY)))))"


subsection \<open>The conditions the specification names for a valid replay\<close>

text \<open>
  The from-state of a line: the token the line names, else the tracker's current state;
  \<open>None\<close> when the line names none and the tracker has no state yet.
\<close>

definition resolved_from :: "string option \<Rightarrow> jdict \<Rightarrow> token option" where
  "resolved_from current_state entry =
     (case coalesce_state entry from_keys of
        None \<Rightarrow> map_option Some current_state
      | Some f \<Rightarrow> Some f)"



text \<open>
  The tracker after a line: the to-state of the line when that is a state and the
  from-state, if there is one, is a state too; else unchanged.
\<close>

definition next_state :: "string option \<Rightarrow> jdict \<Rightarrow> string option" where
  "next_state current_state entry =
     (case coalesce_state entry to_keys of
        None \<Rightarrow> current_state
      | Some t \<Rightarrow>
          if \<not> in_state_set t then current_state
          else
            (case resolved_from current_state entry of
               None \<Rightarrow> t
             | Some f \<Rightarrow> if \<not> in_state_set f then current_state else t))"



text \<open>Logs and clocks to try the replay on.\<close>

definition no_clock :: "string \<Rightarrow> datetime option" where
  "no_clock s = None"




definition bad_from :: "log_line list" where
  "bad_from = [Parsed (JObj [(''from'', JStr ''BAD''), (''to'', JStr ''WATCH'')])]"

definition padded :: "log_line list" where
  "padded = [Parsed (JObj [(''to'', JStr [CHR ''n'', CHR ''o'', CHR ''r'', CHR ''m'', CHR ''a'',
                                          CHR ''l'', CHR 0xA0])])]"






section \<open>Migration compare (\<^verbatim>\<open>migration_compare.py\<close>)\<close>















subsection \<open>The verdict model the specification names\<close>







chapter \<open>Theorems\<close>

section \<open>Runner guard: rates and transitions\<close>

lemma count_issues_closed:
  "count_issues xs (t, r) =
     (t + length (filter (mentions ''timeout'')
            (concat (map (\<lambda>v. case v of JStr s \<Rightarrow> [s] | _ \<Rightarrow> []) xs))),
      r + length (filter (mentions ''retry storm'')
            (concat (map (\<lambda>v. case v of JStr s \<Rightarrow> [s] | _ \<Rightarrow> []) xs))))"
  by (induction xs "(t, r)" arbitrary: t r rule: count_issues.induct)
     (simp_all add: mentions_def Let_def)

lemma count_rows_closed:
  "count_rows history (f, t, r) =
     (f + length (filter is_failure history),
      t + issue_count ''timeout'' history,
      r + issue_count ''retry storm'' history)"
proof (induction history arbitrary: f t r)
  case Nil
  then show ?case by (simp add: issue_count_def)
next
  case (Cons row rest)
  show ?case
    by (cases "py_get row ''blockingIssues''")
       (simp_all add: Cons.IH Let_def is_failure_def issue_count_def string_issues_def
          count_issues_closed)
qed

text \<open>
  The scale that \<^verbatim>\<open>float_div\<close> picks brings the quotient up to \<open>2 ^ 52\<close> and, being the
  least one, not up to \<open>2 ^ 53\<close>; the rounding moves the scaled quotient by at most one
  half, and to an even number when by exactly one half. So the float quotient is a
  number \<open>m / 2 ^ s\<close> with a significand \<open>m\<close> of 53 bits that lies nearest to the
  quotient, and it differs from the quotient by at most the fraction \<open>1 / 2 ^ 53\<close> of
  it.
\<close>

lemma scale_of_reaches:
  "0 < a \<Longrightarrow> b * 2 ^ 52 \<le> a * 2 ^ scale_of a b s"
  by (induction a b s rule: scale_of.induct) (subst scale_of.simps, simp)

lemma round_half_even_near:
  assumes "0 < d"
  shows "\<bar>real_of_int (round_half_even n d) - real_of_int n / real_of_int d\<bar> \<le> 1 / 2"
proof -
  define k where "k = n div d"
  define r where "r = n mod d"
  have n: "n = k * d + r" and r0: "0 \<le> r" and rd: "r < d"
    using assms by (simp_all add: k_def r_def)
  have q: "real_of_int n / real_of_int d = real_of_int k + real_of_int r / real_of_int d"
    using assms by (simp add: n field_simps)
  have h: "2 * r < d \<Longrightarrow> real_of_int r / real_of_int d \<le> 1 / 2"
    using assms by (simp add: field_simps)
  have g: "d \<le> 2 * r \<Longrightarrow> 1 / 2 \<le> real_of_int r / real_of_int d"
    using assms by (simp add: field_simps)
  have u: "real_of_int r / real_of_int d < 1" and l: "0 \<le> real_of_int r / real_of_int d"
    using assms r0 rd by simp_all
  have e: "2 * r = d \<Longrightarrow> real_of_int r / real_of_int d = 1 / 2"
    using assms by (simp add: field_simps)
  show ?thesis
    unfolding round_half_even_def Let_def k_def [symmetric] r_def [symmetric] q
    using h g u l e by (auto simp add: abs_if not_less)
qed

lemma float_div_near:
  assumes "0 < a" and "0 < b"
  shows "\<bar>float_div a b - real a / real b\<bar> \<le> (real a / real b) / 2 ^ 53"
proof -
  define s where "s = scale_of (int a) (int b) 0"
  define m where "m = round_half_even (int a * 2 ^ s) (int b)"
  have f: "float_div a b = real_of_int m / 2 ^ s"
    using assms by (simp add: float_div_def s_def m_def Let_def)
  from scale_of_reaches [of "int a" "int b" 0] assms
  have "int b * 2 ^ 52 \<le> int a * 2 ^ s"
    by (simp add: s_def)
  then have "real_of_int (int b * 2 ^ 52) \<le> real_of_int (int a * 2 ^ s)"
    by (rule of_int_le_iff [THEN iffD2])
  then have sc: "real b * 2 ^ 52 \<le> real a * 2 ^ s"
    by simp
  from round_half_even_near [of "int b" "int a * 2 ^ s"] assms
  have "\<bar>real_of_int m - real a * 2 ^ s / real b\<bar> \<le> 1 / 2"
    by (simp add: m_def)
  then have "\<bar>real_of_int m - real a * 2 ^ s / real b\<bar> / 2 ^ s \<le> (1 / 2) / 2 ^ s"
    by (intro divide_right_mono) simp_all
  moreover have "\<bar>real_of_int m - real a * 2 ^ s / real b\<bar> / 2 ^ s =
      \<bar>real_of_int m / 2 ^ s - real a / real b\<bar>"
  proof -
    have "\<bar>real_of_int m - real a * 2 ^ s / real b\<bar> / 2 ^ s =
        \<bar>(real_of_int m - real a * 2 ^ s / real b) / 2 ^ s\<bar>"
      by simp
    also have "(real_of_int m - real a * 2 ^ s / real b) / 2 ^ s =
        real_of_int m / 2 ^ s - real a / real b"
      by (simp add: diff_divide_distrib)
    finally show ?thesis .
  qed
  ultimately have d: "\<bar>real_of_int m / 2 ^ s - real a / real b\<bar> \<le> (1 / 2) / 2 ^ s"
    by simp
  have "(1 / 2) / 2 ^ s \<le> (real a / real b) / 2 ^ 53"
    using sc assms by (simp add: field_simps)
  with d show ?thesis
    unfolding f by linarith
qed

lemma scale_of_ge: "s \<le> scale_of a b s"
proof (induction a b s rule: scale_of.induct)
  case (1 a b s)
  show ?case
  proof (cases "a \<le> 0 \<or> b * 2 ^ 52 \<le> a * 2 ^ s")
    case True
    then show ?thesis by (subst scale_of.simps) simp
  next
    case False
    with 1 have "Suc s \<le> scale_of a b (Suc s)" by simp
    with False show ?thesis by (subst scale_of.simps) simp
  qed
qed

lemma scale_of_least:
  "s < scale_of a b s \<Longrightarrow> a * 2 ^ (scale_of a b s - 1) < b * 2 ^ 52"
proof (induction a b s rule: scale_of.induct)
  case (1 a b s)
  show ?case
  proof (cases "a \<le> 0 \<or> b * 2 ^ 52 \<le> a * 2 ^ s")
    case True
    with "1.prems" show ?thesis by (subst (asm) scale_of.simps) simp
  next
    case False
    then have u: "scale_of a b s = scale_of a b (Suc s)"
      by (subst scale_of.simps) simp
    show ?thesis
    proof (cases "Suc s < scale_of a b (Suc s)")
      case True
      with 1 False show ?thesis by (simp add: u)
    next
      case False
      with scale_of_ge [of "Suc s" a b] have "scale_of a b (Suc s) = Suc s" by simp
      with \<open>\<not> (a \<le> 0 \<or> b * 2 ^ 52 \<le> a * 2 ^ s)\<close> show ?thesis by (simp add: u)
    qed
  qed
qed

lemma round_half_even_cases:
  assumes "0 < d"
  shows "(round_half_even n d = n div d \<or> round_half_even n d = n div d + 1) \<and>
         (2 * (n mod d) = d \<longrightarrow> even (round_half_even n d))"
  by (auto simp add: round_half_even_def Let_def)

lemma float_div_rounds:
  assumes "0 < a" and "0 < b" and "a < b * 2 ^ 53"
  shows "\<exists>s m. float_div a b = real_of_int m / 2 ^ s \<and>
           2 ^ 52 \<le> m \<and> m \<le> 2 ^ 53 \<and>
           \<bar>real_of_int m - real a * 2 ^ s / real b\<bar> \<le> 1 / 2 \<and>
           (\<bar>real_of_int m - real a * 2 ^ s / real b\<bar> = 1 / 2 \<longrightarrow> even m)"
proof -
  define s where "s = scale_of (int a) (int b) 0"
  define n where "n = int a * 2 ^ s"
  define m where "m = round_half_even n (int b)"
  define q where "q = n div int b"
  define r where "r = n mod int b"
  have b0: "0 < int b"
    using assms by simp
  have f: "float_div a b = real_of_int m / 2 ^ s"
    using assms by (simp add: float_div_def s_def m_def n_def Let_def)
  from scale_of_reaches [of "int a" "int b" 0] assms
  have lo: "int b * 2 ^ 52 \<le> n"
    by (simp add: s_def n_def)
  have hi: "n < int b * 2 ^ 53"
  proof (cases "s = 0")
    case True
    from assms(3) have "int a < int (b * 2 ^ 53)"
      by (rule of_nat_less_iff [THEN iffD2])
    with True show ?thesis
      by (simp add: n_def)
  next
    case False
    then have "0 < scale_of (int a) (int b) 0"
      by (simp add: s_def)
    from scale_of_least [OF this] have "int a * 2 ^ (s - 1) < int b * 2 ^ 52"
      by (simp add: s_def)
    moreover from False have "(2::int) ^ s = 2 * 2 ^ (s - 1)"
      by (cases s) simp_all
    ultimately show ?thesis
      unfolding n_def by simp
  qed
  have e: "q * int b + r = n"
    by (simp add: q_def r_def)
  have r0: "0 \<le> r" and r1: "r < int b"
    using b0 by (simp_all add: r_def)
  have d: "(q + 1) * int b = q * int b + int b"
    by (simp add: algebra_simps)
  have k1: "2 ^ 52 \<le> q"
  proof (rule ccontr)
    assume "\<not> 2 ^ 52 \<le> q"
    then have "q + 1 \<le> 2 ^ 52"
      by simp
    then have "(q + 1) * int b \<le> 2 ^ 52 * int b"
      using b0 by (intro mult_right_mono) simp_all
    with e r1 d lo show False
      by (simp add: mult.commute)
  qed
  have k2: "q < 2 ^ 53"
  proof (rule ccontr)
    assume "\<not> q < 2 ^ 53"
    then have "2 ^ 53 * int b \<le> q * int b"
      using b0 by (intro mult_right_mono) simp_all
    with e r0 hi show False
      by (simp add: mult.commute)
  qed
  from round_half_even_cases [OF b0, of n]
  have c: "m = q \<or> m = q + 1" and ev: "2 * r = int b \<longrightarrow> even m"
    by (simp_all add: m_def q_def r_def)
  from c k1 k2 have m1: "2 ^ 52 \<le> m" and m2: "m \<le> 2 ^ 53"
    by auto
  from round_half_even_near [OF b0, of n]
  have near: "\<bar>real_of_int m - real a * 2 ^ s / real b\<bar> \<le> 1 / 2"
    by (simp add: m_def n_def)
  have "real_of_int (q * int b + r) = real_of_int n"
    by (simp only: e)
  then have "real_of_int n = real_of_int q * real b + real_of_int r"
    by simp
  then have qr: "real a * 2 ^ s / real b = real_of_int q + real_of_int r / real b"
    using assms(2) by (simp add: n_def field_simps)
  have tie: "\<bar>real_of_int m - real a * 2 ^ s / real b\<bar> = 1 / 2 \<longrightarrow> even m"
  proof
    assume t: "\<bar>real_of_int m - real a * 2 ^ s / real b\<bar> = 1 / 2"
    define x where "x = real_of_int r / real b"
    have u: "0 \<le> x" and v: "x < 1"
      using r0 r1 assms(2) by (simp_all add: x_def)
    from t have t': "\<bar>real_of_int m - (real_of_int q + x)\<bar> = 1 / 2"
      unfolding qr x_def .
    from c have "x = 1 / 2"
    proof
      assume "m = q"
      with t' u show ?thesis by simp
    next
      assume "m = q + 1"
      with t' v show ?thesis by simp
    qed
    then have "2 * real_of_int r = real b"
      using assms(2) by (simp add: x_def field_simps)
    then have "real_of_int (2 * r) = real_of_int (int b)"
      by simp
    then have "2 * r = int b"
      by (simp only: of_int_eq_iff)
    with ev show "even m"
      by simp
  qed
  from f m1 m2 near tie show ?thesis
    by blast
qed

lemma float_div_samples:
  "float_div 0 3 = 0 \<and> float_div 3 3 = 1 \<and> float_div 2 1 = 2 \<and> float_div 1 2 = 1 / 2 \<and>
   float_div 1 3 = 6004799503160661 / 2 ^ 54 \<and> float_div 1 10 = 3602879701896397 / 2 ^ 55"
  by code_simp

text \<open>
  Claim C4, as the code has it. For a history of N checkpoints, \<^verbatim>\<open>compute_rates\<close> returns
  failRate = (number of checkpoints whose status is tool_error or policy_fail) / N,
  timeoutRate = (number of string blocking issues, over all checkpoints, whose lower-cased
  text contains "timeout") / N, and retryStormRate = (number of string blocking issues
  whose lower-cased text contains "retry storm") / N; for the empty history all rates
  are zero. The two issue rates count issues, not checkpoints. Each quotient is a float
  division: zero for the count zero, and else the number \<open>m / 2 ^ s\<close>, with \<open>m\<close> from
  \<open>2 ^ 52\<close> to \<open>2 ^ 53\<close>, that is nearest to the quotient, with \<open>m\<close> even when two are
  equally near.
\<close>

theorem compute_rates_counts:
  "compute_rates history =
     (if history = [] then \<lparr>total = 0, failRate = 0, timeoutRate = 0, retryStormRate = 0\<rparr>
      else \<lparr>total = real (length history),
            failRate = float_div (length (filter is_failure history)) (length history),
            timeoutRate = float_div (issue_count ''timeout'' history) (length history),
            retryStormRate = float_div (issue_count ''retry storm'' history) (length history)\<rparr>) \<and>
   float_div 0 b = 0 \<and>
   (0 < a \<and> 0 < b \<and> a < b * 2 ^ 53 \<longrightarrow>
      (\<exists>s m. float_div a b = real_of_int m / 2 ^ s \<and>
         2 ^ 52 \<le> m \<and> m \<le> 2 ^ 53 \<and>
         \<bar>real_of_int m - real a * 2 ^ s / real b\<bar> \<le> 1 / 2 \<and>
         (\<bar>real_of_int m - real a * 2 ^ s / real b\<bar> = 1 / 2 \<longrightarrow> even m)))"
proof (intro conjI impI)
  show "compute_rates history =
     (if history = [] then \<lparr>total = 0, failRate = 0, timeoutRate = 0, retryStormRate = 0\<rparr>
      else \<lparr>total = real (length history),
            failRate = float_div (length (filter is_failure history)) (length history),
            timeoutRate = float_div (issue_count ''timeout'' history) (length history),
            retryStormRate = float_div (issue_count ''retry storm'' history) (length history)\<rparr>)"
    by (simp add: compute_rates_def count_rows_closed Let_def)
next
  show "float_div 0 b = 0"
    by (simp add: float_div_def)
next
  assume "0 < a \<and> 0 < b \<and> a < b * 2 ^ 53"
  then show "\<exists>s m. float_div a b = real_of_int m / 2 ^ s \<and>
         2 ^ 52 \<le> m \<and> m \<le> 2 ^ 53 \<and>
         \<bar>real_of_int m - real a * 2 ^ s / real b\<bar> \<le> 1 / 2 \<and>
         (\<bar>real_of_int m - real a * 2 ^ s / real b\<bar> = 1 / 2 \<longrightarrow> even m)"
    by (intro float_div_rounds) simp_all
qed

text \<open>
  A history of three checkpoints, one of them failed, with no blocking issue: the
  failure rate is the float nearest to one third.
\<close>

theorem compute_rates_counts_witness:
  "one_in_three \<noteq> [] \<and>
   length (filter is_failure one_in_three) = 1 \<and>
   length one_in_three = 3 \<and>
   compute_rates one_in_three =
     \<lparr>total = 3, failRate = 6004799503160661 / 2 ^ 54, timeoutRate = 0, retryStormRate = 0\<rparr> \<and>
   (0::nat) < 1 \<and> (0::nat) < 3 \<and> (1::nat) < 3 * 2 ^ 53 \<and>
   (\<exists>s m. float_div 1 3 = real_of_int m / 2 ^ s \<and> 2 ^ 52 \<le> m \<and> m \<le> 2 ^ 53 \<and>
      \<bar>real_of_int m - real 1 * 2 ^ s / real 3\<bar> \<le> 1 / 2)"
proof -
  have n: "one_in_three \<noteq> []"
    by (simp add: one_in_three_def)
  have f: "length (filter is_failure one_in_three) = 1"
    by code_simp
  have l: "length one_in_three = 3"
    by (simp add: one_in_three_def)
  have i1: "issue_count ''timeout'' one_in_three = 0"
    by code_simp
  have i2: "issue_count ''retry storm'' one_in_three = 0"
    by code_simp
  have d: "float_div 1 3 = 6004799503160661 / 2 ^ 54"
    by code_simp
  have z: "float_div 0 3 = 0"
    by code_simp
  have h: "(0::nat) < 1 \<and> (0::nat) < 3 \<and> (1::nat) < 3 * 2 ^ 53"
    by simp
  note t = compute_rates_counts [of one_in_three 3 1]
  from t [THEN conjunct1] n f l i1 i2 d z
  have c: "compute_rates one_in_three =
     \<lparr>total = 3, failRate = 6004799503160661 / 2 ^ 54, timeoutRate = 0, retryStormRate = 0\<rparr>"
    by simp
  from t [THEN conjunct2, THEN conjunct2] h
  have r: "\<exists>s m. float_div 1 3 = real_of_int m / 2 ^ s \<and> 2 ^ 52 \<le> m \<and> m \<le> 2 ^ 53 \<and>
      \<bar>real_of_int m - real 1 * 2 ^ s / real 3\<bar> \<le> 1 / 2"
    by blast
  from n f l c h r show ?thesis
    by blast
qed

text \<open>
  Claim C4 as stated fails: one checkpoint with two blocking issues that both contain
  "timeout" gives timeoutRate 2, where the count of checkpoints having such an issue,
  divided by N, is 1.
\<close>

theorem compute_rates_counterexample:
  "timeoutRate (compute_rates two_timeouts) = 2 \<and>
   float_div (checkpoints_with_issue ''timeout'' two_timeouts) (length two_timeouts) = 1"
  by code_simp

text \<open>
  Claim C5. In enforced (non-learning) mode, for every policy and rates: closed with
  breach yields open; open without breach yields half_open; half_open without breach
  yields closed; half_open with breach yields open.
\<close>

theorem transition_state_enforced:
  assumes "policy_mode policy ''learning'' \<noteq> ''learning''"
  shows "(guard_breach policy rs \<longrightarrow>
            fst (transition_state STATE_CLOSED policy rs) = STATE_OPEN) \<and>
         (\<not> guard_breach policy rs \<longrightarrow>
            fst (transition_state STATE_OPEN policy rs) = STATE_HALF_OPEN) \<and>
         (\<not> guard_breach policy rs \<longrightarrow>
            fst (transition_state STATE_HALF_OPEN policy rs) = STATE_CLOSED) \<and>
         (guard_breach policy rs \<longrightarrow>
            fst (transition_state STATE_HALF_OPEN policy rs) = STATE_OPEN)"
  using assms
  by (simp add: transition_state_def guard_breach_def Let_def
      STATE_CLOSED_def STATE_OPEN_def STATE_HALF_OPEN_def)

theorem transition_state_enforced_witness:
  "policy_mode enforced_policy ''learning'' \<noteq> ''learning'' \<and>
   guard_breach enforced_policy breaching_rates \<and>
   \<not> guard_breach enforced_policy healthy_rates \<and>
   fst (transition_state STATE_CLOSED enforced_policy breaching_rates) = STATE_OPEN \<and>
   fst (transition_state STATE_OPEN enforced_policy healthy_rates) = STATE_HALF_OPEN \<and>
   fst (transition_state STATE_HALF_OPEN enforced_policy healthy_rates) = STATE_CLOSED \<and>
   fst (transition_state STATE_HALF_OPEN enforced_policy breaching_rates) = STATE_OPEN"
proof -
  have m: "policy_mode enforced_policy ''learning'' \<noteq> ''learning''"
    by code_simp
  have b: "guard_breach enforced_policy breaching_rates"
    by (simp add: guard_breach_def enforced_policy_def breaching_rates_def)
  have h: "\<not> guard_breach enforced_policy healthy_rates"
    by (simp add: guard_breach_def enforced_policy_def healthy_rates_def)
  show ?thesis
    using m b h transition_state_enforced [OF m, of breaching_rates]
      transition_state_enforced [OF m, of healthy_rates]
    by simp
qed

text \<open>
  The transitions the claim does not list: in enforced mode a breach opens the guard from
  every state, and a state other than the three known ones is treated as closed.
\<close>

lemma transition_state_enforced_table:
  assumes "policy_mode policy ''learning'' \<noteq> ''learning''"
  shows "fst (transition_state previous_state policy rs) =
    (if guard_breach policy rs then STATE_OPEN
     else if previous_state = STATE_OPEN then STATE_HALF_OPEN
     else STATE_CLOSED)"
  using assms
  by (simp add: transition_state_def guard_breach_def Let_def
      STATE_CLOSED_def STATE_OPEN_def STATE_HALF_OPEN_def)

text \<open>
  Claim C10. In learning mode the guard state never changes: for every history and
  previous state the resulting state is the previous state, or closed when the previous
  state is empty, so a persisted open state stays open. The supervisor's flag
  \<^verbatim>\<open>hard_open\<close> holds exactly when the resulting state is open and the mode is not
  learning, and G0 is forced to policy_fail with HARD_GATE_RUNNER_SELF_HEALTH_FAIL exactly
  under that flag: in learning mode G0 reports what the G0 checks found.
\<close>

theorem learning_mode_never_blocks:
  "(policy_mode policy ''learning'' = ''learning'' \<longrightarrow>
      fst (transition_state previous_state policy rs) =
        (if previous_state = [] then STATE_CLOSED else previous_state) \<and>
      guard_state (evaluate_runner_guard policy history previous_state) =
        (if previous_state = [] then STATE_CLOSED else previous_state) \<and>
      (py_get state_payload ''state'' = JStr STATE_OPEN \<longrightarrow>
         guard_state (fst (supervisor_evaluate_runner_guard policy history (Some state_payload)))
           = STATE_OPEN \<and>
         snd (snd (supervisor_evaluate_runner_guard policy history (Some state_payload)))
           = STATE_OPEN) \<and>
      \<not> fst (snd (supervisor_evaluate_runner_guard policy history state_file)) \<and>
      run_g0_fn (fst (snd (supervisor_evaluate_runner_guard policy history state_file))) report =
        run_g0_fn False report) \<and>
   (fst (snd (supervisor_evaluate_runner_guard policy history state_file)) \<longleftrightarrow>
      guard_state (fst (supervisor_evaluate_runner_guard policy history state_file)) = STATE_OPEN \<and>
      policy_mode policy ''learning'' \<noteq> ''learning'') \<and>
   out_status (run_g0_fn False report) =
     (if g0_passed report then STATUS_PASS else STATUS_POLICY_FAIL) \<and>
   out_reasonCodes (run_g0_fn False report) = g0_reasonCodes report \<and>
   out_status (run_g0_fn True report) = STATUS_POLICY_FAIL \<and>
   out_reasonCodes (run_g0_fn True report) = [''HARD_GATE_RUNNER_SELF_HEALTH_FAIL'']"
  by (simp add: transition_state_def evaluate_runner_guard_def
      supervisor_evaluate_runner_guard_def run_g0_fn_def Let_def STATE_OPEN_def
      STATE_CLOSED_def split: prod.splits)

theorem learning_mode_never_blocks_witness:
  "policy_mode learning_policy ''learning'' = ''learning'' \<and>
   py_get [(''state'', JStr ''open'')] ''state'' = JStr STATE_OPEN \<and>
   guard_state (fst (supervisor_evaluate_runner_guard learning_policy two_timeouts
      (Some [(''state'', JStr ''open'')]))) = STATE_OPEN \<and>
   \<not> fst (snd (supervisor_evaluate_runner_guard learning_policy two_timeouts
      (Some [(''state'', JStr ''open'')])))"
proof -
  have m: "policy_mode learning_policy ''learning'' = ''learning''"
    by code_simp
  have p: "py_get [(''state'', JStr ''open'')] ''state'' = JStr STATE_OPEN"
    by (simp add: py_get_def py_get_default_def STATE_OPEN_def)
  show ?thesis
    using m p learning_mode_never_blocks [of learning_policy _ _ two_timeouts
        "[(''state'', JStr ''open'')]" "Some [(''state'', JStr ''open'')]"]
    by simp
qed

section \<open>Verdict deriver\<close>

lemma set_dedup_loop: "set (dedup_loop vs out) = set vs \<union> set out"
  by (induction vs arbitrary: out) auto

lemma set_dedup: "set (dedup vs) = set vs"
  by (simp add: dedup_def set_dedup_loop)

lemma collect_reasons:
  "fst (collect cs (r, i, s, a)) = r @ concat (map reasonCodes cs)"
  by (induction cs arbitrary: r i s a) simp_all

lemma collect_issues:
  "fst (snd (collect cs (r, i, s, a))) = i @ concat (map blockingIssues cs)"
  by (induction cs arbitrary: r i s a) simp_all

lemma collect_statuses:
  "fst (snd (snd (collect cs (r, i, s, a)))) = s @ map status cs"
  by (induction cs arbitrary: r i s a) simp_all

lemma aggregated_statuses:
  "fst (snd (snd (aggregated cps canonical))) = map status cps"
  using collect_statuses [of cps "[]" "[]" "[]" None]
  by (cases "collect cps ([], [], [], None)") (simp add: aggregated_def split: prod.splits)

lemma aggregated_reasons:
  "set (fst (aggregated cps canonical)) =
     (\<Union>c\<in>set cps. set (reasonCodes c)) \<union>
     (if \<exists>c\<in>set cps. \<exists>code\<in>set (reasonCodes c). code \<notin> canonical
      then {''HARD_REASON_CODE_UNKNOWN''} else {})"
  using collect_reasons [of cps "[]" "[]" "[]" None]
  by (cases "collect cps ([], [], [], None)")
     (auto simp add: aggregated_def escalate_unknown_def set_dedup list_ex_iff
      split: prod.splits if_splits)

lemma result_before_overrides_eq:
  "result_before_overrides cps canonical =
     pick_result (map status cps) (fst (aggregated cps canonical))"
  using aggregated_statuses [of cps canonical]
  by (cases "aggregated cps canonical") (simp add: result_before_overrides_def)

lemma status_in_list:
  "list_ex (\<lambda>s. s = x) (map status cps) \<longleftrightarrow> (\<exists>c\<in>set cps. status c = x)"
  by (auto simp add: list_ex_iff)

lemma statuses_all:
  "list_all P (map status cps) \<longleftrightarrow> (\<forall>c\<in>set cps. P (status c))"
  by (auto simp add: list_all_iff)

lemma blocked_in_reasons:
  "list_ex (\<lambda>code. code \<in> blocked_codes) (fst (aggregated cps canonical)) \<longleftrightarrow>
     (\<exists>c\<in>set cps. \<exists>code\<in>set (reasonCodes c). code \<in> blocked_codes)"
  unfolding list_ex_iff aggregated_reasons
  by (auto simp add: blocked_codes_def)

text \<open>
  Claim C1. Before the allowed-outputs and archive_only overrides the verdict deriver
  picks: BLOCKED_WITH_RECOVERY_PLAN if any checkpoint has status tool_error; otherwise,
  if any checkpoint has status policy_fail, BLOCKED_WITH_RECOVERY_PLAN when the reason
  codes of the checkpoints include one of HARD_SOURCE_HEALTH_FAIL,
  HARD_BUDGET_HARD_CAP_HIT, HARD_GATE_RUNNER_SELF_HEALTH_FAIL, and NO_GO otherwise; and
  PAPER_ONLY_GO when every checkpoint has status pass or skipped.
\<close>

theorem result_before_overrides_cases:
  "((\<exists>c\<in>set cps. status c = STATUS_TOOL_ERROR) \<longrightarrow>
      result_before_overrides cps canonical = ''BLOCKED_WITH_RECOVERY_PLAN'') \<and>
   ((\<forall>c\<in>set cps. status c \<noteq> STATUS_TOOL_ERROR) \<and> (\<exists>c\<in>set cps. status c = STATUS_POLICY_FAIL) \<longrightarrow>
      result_before_overrides cps canonical =
        (if \<exists>c\<in>set cps. \<exists>code\<in>set (reasonCodes c). code \<in> blocked_codes
         then ''BLOCKED_WITH_RECOVERY_PLAN'' else ''NO_GO'')) \<and>
   ((\<forall>c\<in>set cps. status c = STATUS_PASS \<or> status c = STATUS_SKIPPED) \<longrightarrow>
      result_before_overrides cps canonical = ''PAPER_ONLY_GO'')"
proof (intro conjI impI)
  assume "\<exists>c\<in>set cps. status c = STATUS_TOOL_ERROR"
  then show "result_before_overrides cps canonical = ''BLOCKED_WITH_RECOVERY_PLAN''"
    by (simp add: result_before_overrides_eq pick_result_def status_in_list)
next
  assume "(\<forall>c\<in>set cps. status c \<noteq> STATUS_TOOL_ERROR) \<and> (\<exists>c\<in>set cps. status c = STATUS_POLICY_FAIL)"
  then show "result_before_overrides cps canonical =
        (if \<exists>c\<in>set cps. \<exists>code\<in>set (reasonCodes c). code \<in> blocked_codes
         then ''BLOCKED_WITH_RECOVERY_PLAN'' else ''NO_GO'')"
    by (simp add: result_before_overrides_eq pick_result_def status_in_list blocked_in_reasons)
next
  assume a: "\<forall>c\<in>set cps. status c = STATUS_PASS \<or> status c = STATUS_SKIPPED"
  have t: "\<not> (\<exists>c\<in>set cps. status c = STATUS_TOOL_ERROR)"
    using a by (auto simp add: STATUS_PASS_def STATUS_SKIPPED_def STATUS_TOOL_ERROR_def)
  have p: "\<not> (\<exists>c\<in>set cps. status c = STATUS_POLICY_FAIL)"
    using a by (auto simp add: STATUS_PASS_def STATUS_SKIPPED_def STATUS_POLICY_FAIL_def)
  show "result_before_overrides cps canonical = ''PAPER_ONLY_GO''"
    using a t p
    by (simp add: result_before_overrides_eq pick_result_def status_in_list statuses_all)
qed

theorem result_before_overrides_cases_witness:
  "map status [cp_pass, cp_tool_error, cp_skipped] =
     [STATUS_PASS, STATUS_TOOL_ERROR, STATUS_SKIPPED] \<and>
   result_before_overrides [cp_pass, cp_tool_error, cp_skipped] sample_codes =
     ''BLOCKED_WITH_RECOVERY_PLAN'' \<and>
   map status [cp_pass, cp_threshold, cp_skipped] =
     [STATUS_PASS, STATUS_POLICY_FAIL, STATUS_SKIPPED] \<and>
   result_before_overrides [cp_pass, cp_threshold, cp_skipped] sample_codes = ''NO_GO'' \<and>
   map status [cp_pass, cp_health, cp_skipped] =
     [STATUS_PASS, STATUS_POLICY_FAIL, STATUS_SKIPPED] \<and>
   result_before_overrides [cp_pass, cp_health, cp_skipped] sample_codes =
     ''BLOCKED_WITH_RECOVERY_PLAN'' \<and>
   map status [cp_pass, cp_pass] = [STATUS_PASS, STATUS_PASS] \<and>
   result_before_overrides [cp_pass, cp_pass] sample_codes = ''PAPER_ONLY_GO''"
proof -
  have h1: "\<exists>c\<in>set [cp_pass, cp_tool_error, cp_skipped]. status c = STATUS_TOOL_ERROR"
    by (simp add: cp_tool_error_def build_checkpoint_def)
  have h2: "(\<forall>c\<in>set [cp_pass, cp_threshold, cp_skipped]. status c \<noteq> STATUS_TOOL_ERROR) \<and>
      (\<exists>c\<in>set [cp_pass, cp_threshold, cp_skipped]. status c = STATUS_POLICY_FAIL)"
    by (simp add: cp_pass_def cp_threshold_def cp_skipped_def build_checkpoint_def
        STATUS_PASS_def STATUS_SKIPPED_def STATUS_POLICY_FAIL_def STATUS_TOOL_ERROR_def)
  have h3: "(\<forall>c\<in>set [cp_pass, cp_health, cp_skipped]. status c \<noteq> STATUS_TOOL_ERROR) \<and>
      (\<exists>c\<in>set [cp_pass, cp_health, cp_skipped]. status c = STATUS_POLICY_FAIL)"
    by (simp add: cp_pass_def cp_health_def cp_skipped_def build_checkpoint_def
        STATUS_PASS_def STATUS_SKIPPED_def STATUS_POLICY_FAIL_def STATUS_TOOL_ERROR_def)
  have h4: "\<forall>c\<in>set [cp_pass, cp_pass]. status c = STATUS_PASS \<or> status c = STATUS_SKIPPED"
    by (simp add: cp_pass_def build_checkpoint_def)
  have b2: "\<not> (\<exists>c\<in>set [cp_pass, cp_threshold, cp_skipped]. \<exists>code\<in>set (reasonCodes c). code \<in> blocked_codes)"
    by (simp add: cp_pass_def cp_threshold_def cp_skipped_def build_checkpoint_def
        blocked_codes_def dedup_def)
  have b3: "\<exists>c\<in>set [cp_pass, cp_health, cp_skipped]. \<exists>code\<in>set (reasonCodes c). code \<in> blocked_codes"
    by (simp add: cp_health_def build_checkpoint_def blocked_codes_def dedup_def)
  have m: "map status [cp_pass, cp_tool_error, cp_skipped] =
        [STATUS_PASS, STATUS_TOOL_ERROR, STATUS_SKIPPED]"
      "map status [cp_pass, cp_threshold, cp_skipped] =
        [STATUS_PASS, STATUS_POLICY_FAIL, STATUS_SKIPPED]"
      "map status [cp_pass, cp_health, cp_skipped] =
        [STATUS_PASS, STATUS_POLICY_FAIL, STATUS_SKIPPED]"
      "map status [cp_pass, cp_pass] = [STATUS_PASS, STATUS_PASS]"
    by (simp_all add: cp_pass_def cp_tool_error_def cp_threshold_def cp_health_def
        cp_skipped_def build_checkpoint_def)
  show ?thesis
    using h1 h2 h3 h4 b2 b3 m
      result_before_overrides_cases [of "[cp_pass, cp_tool_error, cp_skipped]" sample_codes]
      result_before_overrides_cases [of "[cp_pass, cp_threshold, cp_skipped]" sample_codes]
      result_before_overrides_cases [of "[cp_pass, cp_health, cp_skipped]" sample_codes]
      result_before_overrides_cases [of "[cp_pass, cp_pass]" sample_codes]
    by presburger
qed

lemma allowed_outputs_reasons:
  "set (fst (snd (apply_allowed_outputs cfg (res, reasons, iss)))) \<subseteq>
     set reasons \<union> {''HARD_RELEASE_GATE_BLOCKED''} \<and>
   set reasons \<subseteq> set (fst (snd (apply_allowed_outputs cfg (res, reasons, iss))))"
  by (auto simp add: apply_allowed_outputs_def set_dedup Let_def split: json.splits)

lemma archive_only_reasons:
  "set (fst (snd (apply_archive_only sfp (res, reasons, iss)))) \<subseteq>
     set reasons \<union> {''HARD_RELEASE_GATE_BLOCKED''} \<and>
   set reasons \<subseteq> set (fst (snd (apply_archive_only sfp (res, reasons, iss))))"
  by (auto simp add: apply_archive_only_def set_dedup Let_def split: json.splits)

lemma verdict_reasons_bounds:
  "set (fst (aggregated cps canonical)) \<subseteq> set (verdict_reasonCodes (derive_verdict cps profile sfp canonical)) \<and>
   set (verdict_reasonCodes (derive_verdict cps profile sfp canonical)) \<subseteq>
     set (fst (aggregated cps canonical)) \<union> {''HARD_RELEASE_GATE_BLOCKED''}"
proof -
  obtain reasons iss statuses att where a: "aggregated cps canonical = (reasons, iss, statuses, att)"
    by (cases "aggregated cps canonical") auto
  define cfg where "cfg = (case py_get profile ''decision'' of JObj d \<Rightarrow> d | _ \<Rightarrow> [])"
  obtain r1 rs1 is1 where s1: "apply_allowed_outputs cfg (pick_result statuses reasons, reasons, iss) = (r1, rs1, is1)"
    by (cases "apply_allowed_outputs cfg (pick_result statuses reasons, reasons, iss)") auto
  obtain r2 rs2 is2 where s2: "apply_archive_only sfp (r1, rs1, is1) = (r2, rs2, is2)"
    by (cases "apply_archive_only sfp (r1, rs1, is1)") auto
  have v: "verdict_reasonCodes (derive_verdict cps profile sfp canonical) = rs2"
    by (simp add: derive_verdict_def a cfg_def [symmetric] s1 s2 Let_def)
  from allowed_outputs_reasons [of cfg "pick_result statuses reasons" reasons iss] s1
  have b1: "set rs1 \<subseteq> set reasons \<union> {''HARD_RELEASE_GATE_BLOCKED''}" "set reasons \<subseteq> set rs1"
    by simp_all
  from archive_only_reasons [of sfp r1 rs1 is1] s2
  have b2: "set rs2 \<subseteq> set rs1 \<union> {''HARD_RELEASE_GATE_BLOCKED''}" "set rs1 \<subseteq> set rs2"
    by simp_all
  from b1 b2 show ?thesis unfolding v a by auto
qed

text \<open>
  Claim C2, as the code has it. Every reason code of the verdict is in the canonical set,
  or is HARD_RELEASE_GATE_BLOCKED (the code the two overrides add after the canonical
  check), or the verdict also carries HARD_REASON_CODE_UNKNOWN.
\<close>

theorem verdict_reason_codes_escalated:
  assumes "code \<in> set (verdict_reasonCodes (derive_verdict cps profile sfp canonical))"
  shows "code \<in> canonical \<or> code = ''HARD_RELEASE_GATE_BLOCKED'' \<or>
         ''HARD_REASON_CODE_UNKNOWN'' \<in> set (verdict_reasonCodes (derive_verdict cps profile sfp canonical))"
proof (cases "code = ''HARD_RELEASE_GATE_BLOCKED'' \<or> code \<in> canonical")
  case True
  then show ?thesis by auto
next
  case False
  with assms verdict_reasons_bounds [of cps canonical profile sfp]
  have "code \<in> set (fst (aggregated cps canonical))" by auto
  with False have "''HARD_REASON_CODE_UNKNOWN'' \<in> set (fst (aggregated cps canonical))"
    unfolding aggregated_reasons by (auto split: if_splits)
  with verdict_reasons_bounds [of cps canonical profile sfp] show ?thesis by auto
qed

theorem verdict_reason_codes_escalated_witness:
  "''HARD_NOT_IN_CATALOG'' \<in>
     set (verdict_reasonCodes (derive_verdict
        [build_checkpoint ''G2'' 1 STATUS_POLICY_FAIL [''HARD_NOT_IN_CATALOG''] [] None]
        no_go_only_profile [] sample_codes)) \<and>
   ''HARD_NOT_IN_CATALOG'' \<notin> sample_codes \<and>
   ''HARD_REASON_CODE_UNKNOWN'' \<in>
     set (verdict_reasonCodes (derive_verdict
        [build_checkpoint ''G2'' 1 STATUS_POLICY_FAIL [''HARD_NOT_IN_CATALOG''] [] None]
        no_go_only_profile [] sample_codes))"
proof -
  have h: "''HARD_NOT_IN_CATALOG'' \<in>
     set (verdict_reasonCodes (derive_verdict
        [build_checkpoint ''G2'' 1 STATUS_POLICY_FAIL [''HARD_NOT_IN_CATALOG''] [] None]
        no_go_only_profile [] sample_codes))"
    by code_simp
  have n: "''HARD_NOT_IN_CATALOG'' \<notin> sample_codes"
    by (simp add: sample_codes_def)
  from verdict_reason_codes_escalated [OF h] n h show ?thesis
    by simp
qed

text \<open>
  Claim C2 as stated fails: with a passing run and \<^verbatim>\<open>decision.allowed_outputs = ["NO_GO"]\<close>
  the override adds HARD_RELEASE_GATE_BLOCKED, which is not in the canonical set used
  here, and the verdict carries no HARD_REASON_CODE_UNKNOWN.
\<close>

theorem verdict_reason_codes_counterexample:
  "''HARD_RELEASE_GATE_BLOCKED'' \<in>
     set (verdict_reasonCodes (derive_verdict [cp_pass] no_go_only_profile [] sample_codes)) \<and>
   ''HARD_RELEASE_GATE_BLOCKED'' \<notin> sample_codes \<and>
   ''HARD_REASON_CODE_UNKNOWN'' \<notin>
     set (verdict_reasonCodes (derive_verdict [cp_pass] no_go_only_profile [] sample_codes))"
  by code_simp


section \<open>Retry supervision\<close>













text \<open>
  With \<^verbatim>\<open>retry_on_status = ["pass"]\<close>, outside the data model, the stop on pass comes
  first: the first attempt passes, is not final and is listed, and no second attempt is
  made.
\<close>

lemma retry_pass_listed:
  "length (checkpoints_written ''G0'' retry_pass_profile always_pass) = 1 \<and>
   Suc 0 < 1 + fst (gate_retry_cfg retry_pass_profile ''G0'') \<and>
   status (checkpoints_written ''G0'' retry_pass_profile always_pass ! 0)
     \<in> set (retry_statuses retry_pass_profile)"
  by code_simp

section \<open>Attestation and G4\<close>

lemma validate_attestation_passed:
  "fst (validate_attestation payload owners) \<longleftrightarrow> snd (validate_attestation payload owners) = []"
  by (simp add: validate_attestation_def Let_def)







section \<open>State-machine replay\<close>









lemma parse_log_from_error:
  "parse_log_from idx log_lines = Inl e \<Longrightarrow> e = JSONDecodeError \<or> e = ValueError"
  by (induction idx log_lines rule: parse_log_from.induct) (auto split: sum.splits)







text \<open>
  A state name is read without the whitespace around it and in capitals: a line whose
  to-state is \<^verbatim>\<open>normal\<close> followed by a no-break space is valid. A line from a token that
  is not a state is not.
\<close>

lemma replay_samples:
  "replay_main no_clock False (Some padded) =
     (\<lparr>valid = True, transitionCount = Some 1, finalState = Some ''NORMAL'', errors = [],
       warnings = Some [],
       transitions = [\<lparr>tr_line = 1, tr_from = None, tr_to = ''NORMAL'', tr_allowed = True,
                        tr_event = JNull\<rparr>]\<rparr>, 0) \<and>
   \<not> valid (fst (replay_main no_clock False (Some bad_from))) \<and>
   snd (replay_main no_clock False (Some bad_from)) = 2 \<and>
   errors (fst (replay_main no_clock False (Some bad_from))) =
     [UnknownFromState 1 (Some ''BAD'')]"
  by code_simp

section \<open>Migration compare\<close>










end
